theory Spec2Isabelle
  imports Main
begin

section \<open>JavaScript values\<close>

text \<open>
  The session manager of \<^verbatim>\<open>src/lib/auth.tsx\<close> handles values of TypeScript type
  \<^verbatim>\<open>any\<close>: the parsed body of a server response and the parsed user record. They are
  modelled by the JSON-shaped values below, with \<open>Undefined\<close> for a missing property.
  Numbers are kept abstract: how a number prints and whether it is truthy is the
  platform's business.
\<close>

typedecl number

datatype jsval =
    Undefined
  | Null
  | Bool bool
  | Num number
  | Str string
  | Arr "jsval list"
  | Obj "(string \<times> jsval) list"

section \<open>The platform and the state of the provider\<close>

datatype exn = TypeError | SyntaxError | NetworkFailure | QuotaExceededError

text \<open>
  The three forms of \<^verbatim>\<open>HeadersInit\<close>: a plain object, a \<^verbatim>\<open>Headers\<close> instance (given by
  its list of headers) and an array of name/value arrays. The object that \<open>authFetch\<close>
  builds is a plain one whose values need not be strings, hence the values of \<open>Plain\<close>.
\<close>

datatype headers_init =
    Plain "string \<rightharpoonup> jsval"
  | Instance "(string \<times> string) list"
  | Pairs "string list list"

text \<open>
  A request as \<^verbatim>\<open>fetch(url, init)\<close> receives it: \<open>req_method\<close> is the \<^verbatim>\<open>method\<close> property,
  and a property is \<open>None\<close> when the object does not have it.
\<close>

record request_init =
  req_method :: "string option"
  headers :: "headers_init option"
  body :: "string option"

record response =
  status :: nat
  text_body :: string

datatype fetch_result = Rejected | Resolved response

text \<open>
  What the module takes from its environment: the two JSON built-ins (\<open>JSON_parse\<close> gives
  \<open>None\<close> where the built-in throws a SyntaxError), the printing and the truthiness of
  numbers, the build-time variable \<^verbatim>\<open>NEXT_PUBLIC_API_URL\<close>, the answer of the network to a
  request, and whether the storage, with its present content, takes a value under a key
  (\<^verbatim>\<open>localStorage.setItem\<close> throws a QuotaExceededError when it does not).
\<close>

record platform =
  JSON_parse :: "string \<Rightarrow> jsval option"
  JSON_stringify :: "jsval \<Rightarrow> string"
  Number_toString :: "number \<Rightarrow> string"
  Number_truthy :: "number \<Rightarrow> bool"
  NEXT_PUBLIC_API_URL :: "string option"
  fetch :: "string \<Rightarrow> request_init \<Rightarrow> fetch_result"
  storage_accepts :: "(string \<rightharpoonup> string) \<Rightarrow> string \<Rightarrow> string \<Rightarrow> bool"

text \<open>JavaScript truthiness, as used by \<^verbatim>\<open>&&\<close>, \<^verbatim>\<open>||\<close>, \<^verbatim>\<open>!\<close> and \<^verbatim>\<open>?:\<close>.\<close>

fun truthy :: "platform \<Rightarrow> jsval \<Rightarrow> bool" where
  "truthy P Undefined = False"
| "truthy P Null = False"
| "truthy P (Bool b) = b"
| "truthy P (Num n) = Number_truthy P n"
| "truthy P (Str s) = (s \<noteq> [])"
| "truthy P (Arr xs) = True"
| "truthy P (Obj kvs) = True"

fun join_comma :: "string list \<Rightarrow> string" where
  "join_comma [] = []"
| "join_comma [s] = s"
| "join_comma (s # t # ts) = s @ '','' @ join_comma (t # ts)"

text \<open>
  The string conversion that \<^verbatim>\<open>localStorage.setItem\<close>, \<^verbatim>\<open>JSON.parse\<close> and a template
  literal apply to their argument.
\<close>

fun ToString :: "platform \<Rightarrow> jsval \<Rightarrow> string" where
  "ToString P Undefined = ''undefined''"
| "ToString P Null = ''null''"
| "ToString P (Bool b) = (if b then ''true'' else ''false'')"
| "ToString P (Num n) = Number_toString P n"
| "ToString P (Str s) = s"
| "ToString P (Arr xs) =
     join_comma (map (\<lambda>x. if x = Null \<or> x = Undefined then [] else ToString P x) xs)"
| "ToString P (Obj kvs) = ''[object Object]''"

text \<open>
  The state the module reads and writes: the browser's \<^verbatim>\<open>localStorage\<close>, the three
  \<^verbatim>\<open>useState\<close> cells of \<^verbatim>\<open>AuthProvider\<close>, the paths given to \<^verbatim>\<open>router.push\<close> and the
  requests handed to \<^verbatim>\<open>fetch\<close>, both in the order of the calls.
\<close>

record world =
  localStorage :: "string \<rightharpoonup> string"
  user :: jsval
  token :: jsval
  isLoading :: bool
  pushed :: "string list"
  fetched :: "(string \<times> request_init) list"

section \<open>Statements, exceptions and try/catch\<close>

type_synonym 'a js = "world \<Rightarrow> (exn + 'a) \<times> world"

definition js_return :: "'a \<Rightarrow> 'a js" where
  "js_return x = (\<lambda>w. (Inr x, w))"

definition js_throw :: "exn \<Rightarrow> 'a js" where
  "js_throw e = (\<lambda>w. (Inl e, w))"

definition js_bind :: "'a js \<Rightarrow> ('a \<Rightarrow> 'b js) \<Rightarrow> 'b js" where
  "js_bind m f =
     (\<lambda>w. case m w of (Inl e, w') \<Rightarrow> (Inl e, w') | (Inr x, w') \<Rightarrow> f x w')"

definition js_then :: "unit js \<Rightarrow> 'b js \<Rightarrow> 'b js" where
  "js_then m n = js_bind m (\<lambda>_. n)"

text \<open>\<^verbatim>\<open>try { body } catch { handler }\<close>: what the body wrote before it threw stays written.\<close>

definition js_try :: "'a js \<Rightarrow> 'a js \<Rightarrow> 'a js" where
  "js_try b h =
     (\<lambda>w. case b w of (Inl e, w') \<Rightarrow> h w' | (Inr x, w') \<Rightarrow> (Inr x, w'))"

subsection \<open>The primitives\<close>

definition getItem :: "string \<Rightarrow> jsval js" where
  "getItem k =
     (\<lambda>w. (Inr (case localStorage w k of None \<Rightarrow> Null | Some v \<Rightarrow> Str v), w))"

text \<open>
  \<^verbatim>\<open>localStorage.setItem(k, v)\<close> stores the string conversion of \<open>v\<close>, or throws and
  stores nothing when the storage does not take it.
\<close>

definition setItem :: "platform \<Rightarrow> string \<Rightarrow> jsval \<Rightarrow> unit js" where
  "setItem P k v =
     (\<lambda>w. if storage_accepts P (localStorage w) k (ToString P v)
          then (Inr (), w\<lparr>localStorage := (localStorage w)(k \<mapsto> ToString P v)\<rparr>)
          else (Inl QuotaExceededError, w))"

definition removeItem :: "string \<Rightarrow> unit js" where
  "removeItem k = (\<lambda>w. (Inr (), w\<lparr>localStorage := (localStorage w)(k := None)\<rparr>))"

definition setUser :: "jsval \<Rightarrow> unit js" where
  "setUser v = (\<lambda>w. (Inr (), w\<lparr>user := v\<rparr>))"

definition setToken :: "jsval \<Rightarrow> unit js" where
  "setToken v = (\<lambda>w. (Inr (), w\<lparr>token := v\<rparr>))"

definition setIsLoading :: "bool \<Rightarrow> unit js" where
  "setIsLoading b = (\<lambda>w. (Inr (), w\<lparr>isLoading := b\<rparr>))"

definition router_push :: "string \<Rightarrow> unit js" where
  "router_push p = (\<lambda>w. (Inr (), w\<lparr>pushed := pushed w @ [p]\<rparr>))"

text \<open>\<^verbatim>\<open>await fetch(url, init)\<close>: the request goes out; a network error throws.\<close>

definition fetch_js :: "platform \<Rightarrow> string \<Rightarrow> request_init \<Rightarrow> response js" where
  "fetch_js P url init =
     (\<lambda>w. let w' = w\<lparr>fetched := fetched w @ [(url, init)]\<rparr>
          in case fetch P url init of
               Rejected \<Rightarrow> (Inl NetworkFailure, w')
             | Resolved r \<Rightarrow> (Inr r, w'))"

definition ok :: "response \<Rightarrow> bool" where
  "ok r = (200 \<le> status r \<and> status r \<le> 299)"

text \<open>\<^verbatim>\<open>await response.json()\<close>: throws where the body is not JSON.\<close>

definition response_json :: "platform \<Rightarrow> response \<Rightarrow> jsval js" where
  "response_json P r =
     (case JSON_parse P (text_body r) of
        None \<Rightarrow> js_throw SyntaxError
      | Some data \<Rightarrow> js_return data)"

definition JSON_parse_js :: "platform \<Rightarrow> jsval \<Rightarrow> jsval js" where
  "JSON_parse_js P v =
     (case JSON_parse P (ToString P v) of
        None \<Rightarrow> js_throw SyntaxError
      | Some x \<Rightarrow> js_return x)"

text \<open>\<^verbatim>\<open>JSON.stringify(v)\<close> is \<^verbatim>\<open>undefined\<close>, not a string, at \<^verbatim>\<open>undefined\<close>.\<close>

definition JSON_stringify_js :: "platform \<Rightarrow> jsval \<Rightarrow> jsval" where
  "JSON_stringify_js P v = (if v = Undefined then Undefined else Str (JSON_stringify P v))"

text \<open>
  The property read \<^verbatim>\<open>v.k\<close>, for the names this module reads (\<^verbatim>\<open>access_token\<close>,
  \<^verbatim>\<open>refresh_token\<close>, \<^verbatim>\<open>user\<close>, \<^verbatim>\<open>detail\<close>): none of them is an index, \<^verbatim>\<open>length\<close> or an
  inherited property, so only an object can have one. Reading from \<^verbatim>\<open>null\<close> or
  \<^verbatim>\<open>undefined\<close> throws a TypeError.
\<close>

fun field :: "jsval \<Rightarrow> string \<Rightarrow> jsval" where
  "field (Obj kvs) k = (case map_of kvs k of None \<Rightarrow> Undefined | Some v \<Rightarrow> v)"
| "field v k = Undefined"

definition member :: "jsval \<Rightarrow> string \<Rightarrow> jsval js" where
  "member v k =
     (if v = Null \<or> v = Undefined then js_throw TypeError else js_return (field v k))"

text \<open>The decimal digits of an array index.\<close>

fun digits :: "nat \<Rightarrow> string" where
  "digits n =
     (if n < 10 then [char_of (48 + n)]
      else digits (n div 10) @ [char_of (48 + n mod 10)])"

text \<open>
  The own enumerable properties that an object spread copies: those of a plain object;
  none of a \<^verbatim>\<open>Headers\<close> instance, whose headers are not properties; the elements of an
  array under their indices.
\<close>

fun own_properties :: "headers_init \<Rightarrow> (string \<rightharpoonup> jsval)" where
  "own_properties (Plain m) = m"
| "own_properties (Instance hs) = Map.empty"
| "own_properties (Pairs ps) =
     map_of (zip (map digits [0..<length ps]) (map (\<lambda>p. Arr (map Str p)) ps))"

text \<open>The spread \<^verbatim>\<open>...options.headers\<close>: nothing when there are no headers.\<close>

definition spread :: "headers_init option \<Rightarrow> (string \<rightharpoonup> jsval)" where
  "spread h = (case h of None \<Rightarrow> Map.empty | Some x \<Rightarrow> own_properties x)"

definition API_URL :: "platform \<Rightarrow> string" where
  "API_URL P =
     (case NEXT_PUBLIC_API_URL P of
        None \<Rightarrow> ''http://localhost:8000/api''
      | Some u \<Rightarrow> if u = [] then ''http://localhost:8000/api'' else u)"

definition json_post :: "string \<Rightarrow> request_init" where
  "json_post b =
     \<lparr>req_method = Some ''POST'',
      headers = Some (Plain [''Content-Type'' \<mapsto> Str ''application/json'']),
      body = Some b\<rparr>"

section \<open>AuthProvider\<close>

text \<open>The cells as \<^verbatim>\<open>useState\<close> creates them, over a given \<^verbatim>\<open>localStorage\<close>.\<close>

definition initial :: "(string \<rightharpoonup> string) \<Rightarrow> world" where
  "initial st =
     \<lparr>localStorage = st, user = Null, token = Null, isLoading = True,
      pushed = [], fetched = []\<rparr>"

text \<open>The effect that runs once on mount (lines 49 to 64).\<close>

definition init_effect :: "platform \<Rightarrow> unit js" where
  "init_effect P =
     js_bind (getItem ''accessToken'') (\<lambda>storedToken.
     js_bind (getItem ''user'') (\<lambda>storedUser.
     js_then
       (if truthy P storedToken \<and> truthy P storedUser then
          js_then (setToken storedToken)
            (js_try
               (js_bind (JSON_parse_js P storedUser) setUser)
               (removeItem ''user''))
        else js_return ())
       (setIsLoading False)))"

definition handleUnauthorized :: "unit js" where
  "handleUnauthorized =
     js_then (removeItem ''accessToken'')
    (js_then (removeItem ''refreshToken'')
    (js_then (removeItem ''user'')
    (js_then (setToken Null)
    (js_then (setUser Null)
    (router_push ''/'')))))"

definition authFetch :: "platform \<Rightarrow> string \<Rightarrow> request_init \<Rightarrow> response js" where
  "authFetch P url options =
     js_bind (getItem ''accessToken'') (\<lambda>currentToken.
     js_bind
       (fetch_js P url
          (options\<lparr>headers :=
             Some (Plain ((spread (headers options))
                     (''Authorization'' \<mapsto>
                        Str (if truthy P currentToken
                             then ''Bearer '' @ ToString P currentToken
                             else []))))\<rparr>))
       (\<lambda>response.
     js_then (if status response = 401 then handleUnauthorized else js_return ())
       (js_return response)))"

record auth_result =
  success :: bool
  error :: jsval

definition network_error :: auth_result where
  "network_error = \<lparr>success = False, error = Str ''Network error. Please try again.''\<rparr>"

definition login :: "platform \<Rightarrow> string \<Rightarrow> string \<Rightarrow> auth_result js" where
  "login P email password =
     js_try
       (js_bind
          (fetch_js P (API_URL P @ ''/auth/login'')
             (json_post (JSON_stringify P
                (Obj [(''email'', Str email), (''password'', Str password)]))))
          (\<lambda>response.
        js_bind (response_json P response) (\<lambda>data.
        if ok response then
          js_bind (member data ''access_token'') (\<lambda>access_token.
          js_then (setItem P ''accessToken'' access_token)
         (js_bind (member data ''refresh_token'') (\<lambda>refresh_token.
          js_then (setItem P ''refreshToken'' refresh_token)
         (js_bind (member data ''user'') (\<lambda>u.
          js_then (setItem P ''user'' (JSON_stringify_js P u))
         (js_bind (member data ''access_token'') (\<lambda>access_token'.
          js_then (setToken access_token')
         (js_bind (member data ''user'') (\<lambda>u'.
          js_then (setUser u')
         (js_return \<lparr>success = True, error = Undefined\<rparr>))))))))))
        else
          js_bind (member data ''detail'') (\<lambda>detail.
          js_return
            \<lparr>success = False,
             error = (if truthy P detail then detail
                      else Str ''Invalid email or password'')\<rparr>))))
       (js_return network_error)"

definition register :: "platform \<Rightarrow> string \<Rightarrow> string \<Rightarrow> string \<Rightarrow> auth_result js" where
  "register P name email password =
     js_try
       (js_bind
          (fetch_js P (API_URL P @ ''/auth/register'')
             (json_post (JSON_stringify P
                (Obj [(''name'', Str name), (''email'', Str email),
                      (''password'', Str password)]))))
          (\<lambda>response.
        js_bind (response_json P response) (\<lambda>data.
        if ok response then
          js_bind (member data ''access_token'') (\<lambda>access_token.
          js_then (setItem P ''accessToken'' access_token)
         (js_bind (member data ''refresh_token'') (\<lambda>refresh_token.
          js_then (setItem P ''refreshToken'' refresh_token)
         (js_bind (member data ''user'') (\<lambda>u.
          js_then (setItem P ''user'' (JSON_stringify_js P u))
         (js_bind (member data ''access_token'') (\<lambda>access_token'.
          js_then (setToken access_token')
         (js_bind (member data ''user'') (\<lambda>u'.
          js_then (setUser u')
         (js_return \<lparr>success = True, error = Undefined\<rparr>))))))))))
        else
          js_bind (member data ''detail'') (\<lambda>detail.
          js_return
            \<lparr>success = False,
             error = (if truthy P detail then detail else Str ''Registration failed'')\<rparr>))))
       (js_return network_error)"

definition logout :: "unit js" where
  "logout =
     js_then (removeItem ''accessToken'')
    (js_then (removeItem ''refreshToken'')
    (js_then (removeItem ''user'')
    (js_then (setToken Null)
    (js_then (setUser Null)
    (router_push ''/'')))))"

definition refreshToken :: "platform \<Rightarrow> bool js" where
  "refreshToken P =
     js_bind (getItem ''refreshToken'') (\<lambda>storedRefreshToken.
     if \<not> truthy P storedRefreshToken then js_return False
     else
       js_try
         (js_bind
            (fetch_js P (API_URL P @ ''/auth/refresh'')
               (json_post (JSON_stringify P
                  (Obj [(''refresh_token'', storedRefreshToken)]))))
            (\<lambda>response.
          js_bind (response_json P response) (\<lambda>data.
          if ok response then
            js_bind (member data ''access_token'') (\<lambda>access_token.
            js_then (setItem P ''accessToken'' access_token)
           (js_bind (member data ''access_token'') (\<lambda>access_token'.
            js_then (setToken access_token')
           (js_return True))))
          else js_then logout (js_return False))))
         (js_return False))"

section \<open>Vocabulary of the properties\<close>

text \<open>The three requests the module builds itself, as their definitions above build them.\<close>

definition login_request :: "platform \<Rightarrow> string \<Rightarrow> string \<Rightarrow> string \<times> request_init" where
  "login_request P email password =
     (API_URL P @ ''/auth/login'',
      json_post (JSON_stringify P
        (Obj [(''email'', Str email), (''password'', Str password)])))"

definition register_request ::
  "platform \<Rightarrow> string \<Rightarrow> string \<Rightarrow> string \<Rightarrow> string \<times> request_init" where
  "register_request P name email password =
     (API_URL P @ ''/auth/register'',
      json_post (JSON_stringify P
        (Obj [(''name'', Str name), (''email'', Str email), (''password'', Str password)])))"

definition refresh_request :: "platform \<Rightarrow> string \<Rightarrow> string \<times> request_init" where
  "refresh_request P r =
     (API_URL P @ ''/auth/refresh'',
      json_post (JSON_stringify P (Obj [(''refresh_token'', Str r)])))"

text \<open>The network's answer to a request, and the state once the request has gone out.\<close>

definition answer :: "platform \<Rightarrow> string \<times> request_init \<Rightarrow> fetch_result" where
  "answer P q = fetch P (fst q) (snd q)"

definition sent :: "string \<times> request_init \<Rightarrow> world \<Rightarrow> world" where
  "sent q w = w\<lparr>fetched := fetched w @ [q]\<rparr>"

text \<open>
  The state after \<open>logout\<close>: the three keys gone from storage, both cells \<^verbatim>\<open>null\<close>, one
  navigation to the landing route.
\<close>

definition cleared :: "world \<Rightarrow> world" where
  "cleared w =
     w\<lparr>localStorage :=
         (localStorage w)(''accessToken'' := None, ''refreshToken'' := None, ''user'' := None),
       token := Null, user := Null, pushed := pushed w @ [''/'']\<rparr>"

text \<open>
  The request \<open>authFetch\<close> is expected to hand to \<^verbatim>\<open>fetch\<close>: the caller's url and options,
  with the header computed from the stored access token.
\<close>

definition bearer :: "string option \<Rightarrow> string" where
  "bearer t = (case t of None \<Rightarrow> [] | Some s \<Rightarrow> if s = [] then [] else ''Bearer '' @ s)"

definition auth_request :: "string \<Rightarrow> request_init \<Rightarrow> world \<Rightarrow> string \<times> request_init" where
  "auth_request url options w =
     (url, options\<lparr>headers :=
        Some (Plain ((spread (headers options))
                (''Authorization'' \<mapsto> Str (bearer (localStorage w ''accessToken'')))))\<rparr>)"

text \<open>Two header names are the same header when they differ in the case of letters only.\<close>

definition lower_char :: "char \<Rightarrow> char" where
  "lower_char c =
     (case map_of (zip ''ABCDEFGHIJKLMNOPQRSTUVWXYZ'' ''abcdefghijklmnopqrstuvwxyz'') c of
        None \<Rightarrow> c
      | Some d \<Rightarrow> d)"

definition same_header_name :: "string \<Rightarrow> string \<Rightarrow> bool" where
  "same_header_name a b = (map lower_char a = map lower_char b)"

text \<open>
  The three writes of a successful \<open>login\<close> or \<open>register\<close>, in their order; a run of writes
  stops at the first one the storage does not take.
\<close>

definition session_items :: "platform \<Rightarrow> jsval \<Rightarrow> (string \<times> string) list" where
  "session_items P data =
     [(''accessToken'', ToString P (field data ''access_token'')),
      (''refreshToken'', ToString P (field data ''refresh_token'')),
      (''user'', ToString P (JSON_stringify_js P (field data ''user'')))]"

fun write_all ::
  "platform \<Rightarrow> (string \<times> string) list \<Rightarrow> (string \<rightharpoonup> string)
     \<Rightarrow> bool \<times> (string \<rightharpoonup> string)" where
  "write_all P [] s = (True, s)"
| "write_all P ((k, v) # kvs) s =
     (if storage_accepts P s k v then write_all P kvs (s(k \<mapsto> v)) else (False, s))"

definition writable :: "platform \<Rightarrow> (string \<rightharpoonup> string) \<Rightarrow> (string \<times> string) list \<Rightarrow> bool" where
  "writable P s kvs = fst (write_all P kvs s)"

definition written :: "platform \<Rightarrow> jsval \<Rightarrow> world \<Rightarrow> (exn + auth_result) \<times> world" where
  "written P data w =
     (if writable P (localStorage w) (session_items P data) then
        (Inr \<lparr>success = True, error = Undefined\<rparr>,
         w\<lparr>localStorage := snd (write_all P (session_items P data) (localStorage w)),
           token := field data ''access_token'', user := field data ''user''\<rparr>)
      else
        (Inr network_error,
         w\<lparr>localStorage := snd (write_all P (session_items P data) (localStorage w))\<rparr>))"

definition rejection :: "platform \<Rightarrow> jsval \<Rightarrow> string \<Rightarrow> auth_result" where
  "rejection P data msg =
     \<lparr>success = False,
      error = (if truthy P (field data ''detail'') then field data ''detail'' else Str msg)\<rparr>"





subsection \<open>An environment to run the module in\<close>

definition example_user :: jsval where
  "example_user =
     Obj [(''id'', Str ''1''), (''email'', Str ''a@b.com''), (''name'', Str ''A'')]"

definition example_parse :: "string \<Rightarrow> jsval option" where
  "example_parse s =
     (if s = ''<session>'' then
        Some (Obj [(''access_token'', Str ''T1''), (''refresh_token'', Str ''R1''),
                   (''user'', example_user)])
      else if s = ''<session2>'' then
        Some (Obj [(''access_token'', Str ''T1''), (''refresh_token'', Str ''R2''),
                   (''user'', example_user)])
      else if s = ''<token>'' then Some (Obj [(''access_token'', Str ''T2'')])
      else if s = ''<user>'' then Some example_user
      else if s = ''<detail>'' then Some (Obj [(''detail'', Str ''Incorrect password'')])
      else if s = ''<errors>'' then
        Some (Obj [(''detail'', Arr [Obj [(''msg'', Str ''field required'')]])])
      else None)"

text \<open>A platform whose network gives one answer and whose storage takes every write.\<close>

definition example_platform :: "fetch_result \<Rightarrow> platform" where
  "example_platform a =
     \<lparr>JSON_parse = example_parse,
      JSON_stringify = (\<lambda>v. if v = example_user then ''<user>'' else ''<json>''),
      Number_toString = (\<lambda>n. ''0''),
      Number_truthy = (\<lambda>n. False),
      NEXT_PUBLIC_API_URL = None,
      fetch = (\<lambda>url init. a),
      storage_accepts = (\<lambda>s k v. True)\<rparr>"

text \<open>The same platform with a storage that takes no value under one key.\<close>

definition refusing :: "string \<Rightarrow> platform \<Rightarrow> platform" where
  "refusing k P = P\<lparr>storage_accepts := (\<lambda>s k' v. k' \<noteq> k)\<rparr>"

definition signed_in :: world where
  "signed_in =
     \<lparr>localStorage =
        [''accessToken'' \<mapsto> ''T1'', ''refreshToken'' \<mapsto> ''R1'', ''user'' \<mapsto> ''<user>''],
      user = example_user, token = Str ''T1'', isLoading = False,
      pushed = [], fetched = []\<rparr>"

section \<open>Properties\<close>

lemmas js_defs =
  js_return_def js_throw_def js_bind_def js_then_def js_try_def
  getItem_def setItem_def removeItem_def setUser_def setToken_def setIsLoading_def
  router_push_def fetch_js_def response_json_def JSON_parse_js_def

lemmas example_defs =
  example_platform_def example_parse_def example_user_def signed_in_def initial_def
  refusing_def answer_def sent_def cleared_def API_URL_def json_post_def ok_def
  login_request_def register_request_def refresh_request_def
  auth_request_def bearer_def spread_def

lemma logout_cleared: "logout w = (Inr (), cleared w)"
  by (simp add: logout_def cleared_def js_defs)

lemma handleUnauthorized_cleared: "handleUnauthorized w = (Inr (), cleared w)"
  by (simp add: handleUnauthorized_def cleared_def js_defs)

subsection \<open>refreshToken\<close>

lemma refreshToken_eq:
  "refreshToken P w =
     (case localStorage w ''refreshToken'' of
        None \<Rightarrow> (Inr False, w)
      | Some r \<Rightarrow>
          if r = [] then (Inr False, w)
          else
            (case answer P (refresh_request P r) of
               Rejected \<Rightarrow> (Inr False, sent (refresh_request P r) w)
             | Resolved resp \<Rightarrow>
                 (case JSON_parse P (text_body resp) of
                    None \<Rightarrow> (Inr False, sent (refresh_request P r) w)
                  | Some data \<Rightarrow>
                      if \<not> ok resp then (Inr False, cleared (sent (refresh_request P r) w))
                      else if data = Null \<or> data = Undefined then
                        (Inr False, sent (refresh_request P r) w)
                      else if \<not> storage_accepts P (localStorage w) ''accessToken''
                                 (ToString P (field data ''access_token'')) then
                        (Inr False, sent (refresh_request P r) w)
                      else
                        (Inr True, (sent (refresh_request P r) w)
                           \<lparr>localStorage := (localStorage w)
                              (''accessToken'' \<mapsto> ToString P (field data ''access_token'')),
                            token := field data ''access_token''\<rparr>))))"
  by (simp add: refreshToken_def js_defs member_def answer_def refresh_request_def sent_def
      logout_cleared split: fetch_result.splits option.splits)

lemma refresh_rejected:
  assumes "localStorage w ''refreshToken'' = Some r" "r \<noteq> []"
    and "answer P (refresh_request P r) = Resolved resp" "\<not> ok resp"
    and "JSON_parse P (text_body resp) = Some data"
  shows "refreshToken P w = (Inr False, cleared (sent (refresh_request P r) w))"
  using assms by (simp add: refreshToken_eq)

lemma refresh_network_error:
  assumes "localStorage w ''refreshToken'' = Some r" "r \<noteq> []"
    and "answer P (refresh_request P r) = Rejected"
  shows "refreshToken P w = (Inr False, sent (refresh_request P r) w)"
  using assms by (simp add: refreshToken_eq)

lemma refresh_ok:
  assumes "localStorage w ''refreshToken'' = Some r" "r \<noteq> []"
    and "answer P (refresh_request P r) = Resolved resp" "ok resp"
    and "JSON_parse P (text_body resp) = Some data" "data \<noteq> Null" "data \<noteq> Undefined"
    and "storage_accepts P (localStorage w) ''accessToken''
           (ToString P (field data ''access_token''))"
  shows "refreshToken P w =
    (Inr True, (sent (refresh_request P r) w)
       \<lparr>localStorage :=
          (localStorage w)(''accessToken'' \<mapsto> ToString P (field data ''access_token'')),
        token := field data ''access_token''\<rparr>)"
  using assms by (simp add: refreshToken_eq)

lemma field_Str_present: "field data k = Str a \<Longrightarrow> data \<noteq> Null \<and> data \<noteq> Undefined"
  by auto

text \<open>
  C4. With no refresh token in \<^verbatim>\<open>localStorage\<close>, \<open>refreshToken\<close> returns \<^verbatim>\<open>false\<close> at once:
  no request is handed to \<^verbatim>\<open>fetch\<close> and nothing in storage or memory changes (the whole
  state, the list of requests included, is the one before the call).
\<close>

theorem refreshToken_without_refresh_token:
  "localStorage w ''refreshToken'' = None \<Longrightarrow> refreshToken P w = (Inr False, w)"
  by (simp add: refreshToken_def js_defs)

theorem refreshToken_without_refresh_token_witness:
  "localStorage (initial Map.empty) ''refreshToken'' = None \<and>
   refreshToken (example_platform Rejected) (initial Map.empty)
     = (Inr False, initial Map.empty) \<and>
   fetched (snd (refreshToken (example_platform Rejected) (initial Map.empty))) = []"
  using refreshToken_without_refresh_token
    [of "initial Map.empty" "example_platform Rejected"]
  by (simp add: initial_def)

text \<open>
  C1, as the claim states it, fails: when the network fails, \<open>refreshToken\<close> returns
  \<^verbatim>\<open>false\<close> and leaves the session where it was, while \<open>logout\<close> on the same state
  removes it.
\<close>

theorem refreshToken_network_error_keeps_session:
  "fst (refreshToken (example_platform Rejected) signed_in) = Inr False \<and>
   localStorage (snd (refreshToken (example_platform Rejected) signed_in)) ''accessToken''
     = Some ''T1'' \<and>
   localStorage (snd (refreshToken (example_platform Rejected) signed_in)) ''refreshToken''
     = Some ''R1'' \<and>
   token (snd (refreshToken (example_platform Rejected) signed_in)) = Str ''T1'' \<and>
   user (snd (refreshToken (example_platform Rejected) signed_in)) = example_user \<and>
   pushed (snd (refreshToken (example_platform Rejected) signed_in)) = [] \<and>
   localStorage (snd (logout signed_in)) ''accessToken'' = None \<and>
   token (snd (logout signed_in)) = Null"
  by (simp add: refreshToken_def logout_def js_defs example_defs)

text \<open>
  C1, amended. With a refresh token stored: when the server rejects it (the response is
  not ok and its body is JSON), \<open>refreshToken\<close> returns \<^verbatim>\<open>false\<close> and the state is the one
  \<open>logout\<close> leaves, the three keys gone from storage and both cells \<^verbatim>\<open>null\<close>; when the
  network fails, \<open>refreshToken\<close> returns \<^verbatim>\<open>false\<close> and storage and memory stay as they
  were.
\<close>

theorem refreshToken_failure:
  assumes "localStorage w ''refreshToken'' = Some r" and "r \<noteq> []"
  shows
    "(answer P (refresh_request P r) = Resolved resp \<and> \<not> ok resp \<and>
      JSON_parse P (text_body resp) \<noteq> None \<longrightarrow>
        refreshToken P w = (Inr False, snd (logout (sent (refresh_request P r) w))) \<and>
        localStorage (snd (refreshToken P w)) ''accessToken'' = None \<and>
        localStorage (snd (refreshToken P w)) ''refreshToken'' = None \<and>
        localStorage (snd (refreshToken P w)) ''user'' = None \<and>
        token (snd (refreshToken P w)) = Null \<and>
        user (snd (refreshToken P w)) = Null) \<and>
     (answer P (refresh_request P r) = Rejected \<longrightarrow>
        refreshToken P w = (Inr False, sent (refresh_request P r) w) \<and>
        localStorage (snd (refreshToken P w)) = localStorage w \<and>
        token (snd (refreshToken P w)) = token w \<and>
        user (snd (refreshToken P w)) = user w \<and>
        pushed (snd (refreshToken P w)) = pushed w)"
proof (intro conjI impI)
  assume a: "answer P (refresh_request P r) = Resolved resp \<and> \<not> ok resp \<and>
    JSON_parse P (text_body resp) \<noteq> None"
  then obtain data where "JSON_parse P (text_body resp) = Some data" by auto
  with a assms have
    eq: "refreshToken P w = (Inr False, cleared (sent (refresh_request P r) w))"
    by (simp add: refresh_rejected)
  show "refreshToken P w = (Inr False, snd (logout (sent (refresh_request P r) w)))"
    by (simp add: eq logout_cleared)
  show "localStorage (snd (refreshToken P w)) ''accessToken'' = None"
    and "localStorage (snd (refreshToken P w)) ''refreshToken'' = None"
    and "localStorage (snd (refreshToken P w)) ''user'' = None"
    and "token (snd (refreshToken P w)) = Null"
    and "user (snd (refreshToken P w)) = Null"
    by (simp_all add: eq cleared_def)
next
  assume "answer P (refresh_request P r) = Rejected"
  with assms have eq: "refreshToken P w = (Inr False, sent (refresh_request P r) w)"
    by (simp add: refresh_network_error)
  show "refreshToken P w = (Inr False, sent (refresh_request P r) w)" by (rule eq)
  show "localStorage (snd (refreshToken P w)) = localStorage w"
    and "token (snd (refreshToken P w)) = token w"
    and "user (snd (refreshToken P w)) = user w"
    and "pushed (snd (refreshToken P w)) = pushed w"
    by (simp_all add: eq sent_def)
qed

theorem refreshToken_failure_witness:
  "localStorage signed_in ''refreshToken'' = Some ''R1'' \<and>
   answer (example_platform (Resolved \<lparr>status = 401, text_body = ''<detail>''\<rparr>))
     (refresh_request
        (example_platform (Resolved \<lparr>status = 401, text_body = ''<detail>''\<rparr>)) ''R1'')
     = Resolved \<lparr>status = 401, text_body = ''<detail>''\<rparr> \<and>
   \<not> ok \<lparr>status = 401, text_body = ''<detail>''\<rparr> \<and>
   fst (refreshToken
     (example_platform (Resolved \<lparr>status = 401, text_body = ''<detail>''\<rparr>)) signed_in)
     = Inr False \<and>
   localStorage (snd (refreshToken
     (example_platform (Resolved \<lparr>status = 401, text_body = ''<detail>''\<rparr>)) signed_in))
     ''accessToken'' = None \<and>
   user (snd (refreshToken
     (example_platform (Resolved \<lparr>status = 401, text_body = ''<detail>''\<rparr>)) signed_in))
     = Null \<and>
   answer (example_platform Rejected) (refresh_request (example_platform Rejected) ''R1'')
     = Rejected \<and>
   localStorage (snd (refreshToken (example_platform Rejected) signed_in))
     = localStorage signed_in"
  using
    refreshToken_failure
      [of signed_in "''R1''"
          "example_platform (Resolved \<lparr>status = 401, text_body = ''<detail>''\<rparr>)"
          "\<lparr>status = 401, text_body = ''<detail>''\<rparr>"]
    refreshToken_failure
      [of signed_in "''R1''" "example_platform Rejected"
          "\<lparr>status = 401, text_body = ''<detail>''\<rparr>"]
  by (simp add: example_defs logout_cleared)

text \<open>
  C5. With a refresh token stored, when the renewal endpoint answers ok with a body
  whose \<^verbatim>\<open>access_token\<close> is the string \<open>t\<close> and the storage takes \<open>t\<close>, \<open>refreshToken\<close>
  returns \<^verbatim>\<open>true\<close>; storage is the old storage with \<open>t\<close> under \<^verbatim>\<open>accessToken\<close>, the token
  cell is \<open>t\<close>, and the stored refresh token, the stored user record, the user cell, the
  loading flag and the navigations are the ones before the call.
\<close>

theorem refreshToken_success:
  assumes "localStorage w ''refreshToken'' = Some r" and "r \<noteq> []"
    and "answer P (refresh_request P r) = Resolved resp" and "ok resp"
    and "JSON_parse P (text_body resp) = Some data"
    and "field data ''access_token'' = Str t"
    and "storage_accepts P (localStorage w) ''accessToken'' t"
  shows "fst (refreshToken P w) = Inr True \<and>
    localStorage (snd (refreshToken P w)) = (localStorage w)(''accessToken'' \<mapsto> t) \<and>
    token (snd (refreshToken P w)) = Str t \<and>
    localStorage (snd (refreshToken P w)) ''refreshToken'' = Some r \<and>
    localStorage (snd (refreshToken P w)) ''user'' = localStorage w ''user'' \<and>
    user (snd (refreshToken P w)) = user w \<and>
    isLoading (snd (refreshToken P w)) = isLoading w \<and>
    pushed (snd (refreshToken P w)) = pushed w \<and>
    fetched (snd (refreshToken P w)) = fetched w @ [refresh_request P r]"
proof -
  from assms(6) have "data \<noteq> Null" "data \<noteq> Undefined" by auto
  with assms have "refreshToken P w =
    (Inr True, (sent (refresh_request P r) w)
       \<lparr>localStorage := (localStorage w)(''accessToken'' \<mapsto> t), token := Str t\<rparr>)"
    by (simp add: refresh_ok)
  with assms(1) show ?thesis by (simp add: sent_def)
qed

theorem refreshToken_success_witness:
  "localStorage signed_in ''refreshToken'' = Some ''R1'' \<and>
   answer (example_platform (Resolved \<lparr>status = 200, text_body = ''<token>''\<rparr>))
     (refresh_request
        (example_platform (Resolved \<lparr>status = 200, text_body = ''<token>''\<rparr>)) ''R1'')
     = Resolved \<lparr>status = 200, text_body = ''<token>''\<rparr> \<and>
   ok \<lparr>status = 200, text_body = ''<token>''\<rparr> \<and>
   storage_accepts (example_platform (Resolved \<lparr>status = 200, text_body = ''<token>''\<rparr>))
     (localStorage signed_in) ''accessToken'' ''T2'' \<and>
   fst (refreshToken
     (example_platform (Resolved \<lparr>status = 200, text_body = ''<token>''\<rparr>)) signed_in)
     = Inr True \<and>
   token (snd (refreshToken
     (example_platform (Resolved \<lparr>status = 200, text_body = ''<token>''\<rparr>)) signed_in))
     = Str ''T2'' \<and>
   localStorage (snd (refreshToken
     (example_platform (Resolved \<lparr>status = 200, text_body = ''<token>''\<rparr>)) signed_in))
     ''refreshToken'' = Some ''R1'' \<and>
   user (snd (refreshToken
     (example_platform (Resolved \<lparr>status = 200, text_body = ''<token>''\<rparr>)) signed_in))
     = example_user"
  using
    refreshToken_success
      [of signed_in "''R1''"
          "example_platform (Resolved \<lparr>status = 200, text_body = ''<token>''\<rparr>)"
          "\<lparr>status = 200, text_body = ''<token>''\<rparr>"
          "Obj [(''access_token'', Str ''T2'')]" "''T2''"]
  by (simp add: example_defs)

subsection \<open>authFetch\<close>

lemma authFetch_eq:
  "authFetch P url options w =
     (case answer P (auth_request url options w) of
        Rejected \<Rightarrow> (Inl NetworkFailure, sent (auth_request url options w) w)
      | Resolved resp \<Rightarrow>
          (Inr resp,
           if status resp = 401 then cleared (sent (auth_request url options w) w)
           else sent (auth_request url options w) w))"
  by (simp add: authFetch_def js_defs handleUnauthorized_cleared auth_request_def bearer_def
      answer_def sent_def split: option.splits fetch_result.splits)

lemma authFetch_fetched:
  "fetched (snd (authFetch P url options w)) = fetched w @ [auth_request url options w]"
  by (simp add: authFetch_eq sent_def cleared_def split: fetch_result.splits)

text \<open>
  C3. When the response to the request of \<open>authFetch\<close> has status 401, \<open>authFetch\<close>
  returns that very response, and the state is the one \<open>logout\<close> leaves: the three keys
  gone from storage, both cells \<^verbatim>\<open>null\<close>, one more navigation, to \<^verbatim>\<open>/\<close>. The only
  request handed to \<^verbatim>\<open>fetch\<close> is the caller's, once: nothing is retried and the renewal
  endpoint is not called.
\<close>

theorem authFetch_unauthorized:
  assumes "answer P (auth_request url options w) = Resolved resp" and "status resp = 401"
  shows "fst (authFetch P url options w) = Inr resp \<and>
    snd (authFetch P url options w) = snd (logout (sent (auth_request url options w) w)) \<and>
    localStorage (snd (authFetch P url options w)) ''accessToken'' = None \<and>
    localStorage (snd (authFetch P url options w)) ''refreshToken'' = None \<and>
    localStorage (snd (authFetch P url options w)) ''user'' = None \<and>
    token (snd (authFetch P url options w)) = Null \<and>
    user (snd (authFetch P url options w)) = Null \<and>
    pushed (snd (authFetch P url options w)) = pushed w @ [''/''] \<and>
    fetched (snd (authFetch P url options w)) = fetched w @ [auth_request url options w]"
  using assms by (simp add: authFetch_eq logout_cleared cleared_def sent_def)

theorem authFetch_unauthorized_witness:
  "answer (example_platform (Resolved \<lparr>status = 401, text_body = ''<detail>''\<rparr>))
     (auth_request ''/api/transactions'' \<lparr>req_method = None, headers = None, body = None\<rparr>
        signed_in)
     = Resolved \<lparr>status = 401, text_body = ''<detail>''\<rparr> \<and>
   status \<lparr>status = 401, text_body = ''<detail>''\<rparr> = 401 \<and>
   fst (authFetch (example_platform (Resolved \<lparr>status = 401, text_body = ''<detail>''\<rparr>))
          ''/api/transactions'' \<lparr>req_method = None, headers = None, body = None\<rparr> signed_in)
     = Inr \<lparr>status = 401, text_body = ''<detail>''\<rparr> \<and>
   localStorage
     (snd (authFetch (example_platform (Resolved \<lparr>status = 401, text_body = ''<detail>''\<rparr>))
          ''/api/transactions'' \<lparr>req_method = None, headers = None, body = None\<rparr> signed_in))
     ''refreshToken'' = None \<and>
   token
     (snd (authFetch (example_platform (Resolved \<lparr>status = 401, text_body = ''<detail>''\<rparr>))
          ''/api/transactions'' \<lparr>req_method = None, headers = None, body = None\<rparr> signed_in))
     = Null \<and>
   pushed
     (snd (authFetch (example_platform (Resolved \<lparr>status = 401, text_body = ''<detail>''\<rparr>))
          ''/api/transactions'' \<lparr>req_method = None, headers = None, body = None\<rparr> signed_in))
     = [''/'']"
  using authFetch_unauthorized
    [of "example_platform (Resolved \<lparr>status = 401, text_body = ''<detail>''\<rparr>)"
        "''/api/transactions''" "\<lparr>req_method = None, headers = None, body = None\<rparr>" signed_in
        "\<lparr>status = 401, text_body = ''<detail>''\<rparr>"]
  by (simp add: example_defs authFetch_eq logout_cleared)

text \<open>
  C6, as the claim states it, fails in three ways. When the caller gives the headers as a
  \<^verbatim>\<open>Headers\<close> instance, the spread copies none of them and the request goes out without
  them. When the stored access token is the empty string, the \<^verbatim>\<open>Authorization\<close> header
  is the empty string and not a bearer credential. When the caller gives an
  \<^verbatim>\<open>authorization\<close> header in lower case, the request carries it beside the computed one.
\<close>

theorem authFetch_request_not_merged:
  "fetched (snd (authFetch (example_platform Rejected) ''/api/transactions''
      \<lparr>req_method = None, headers = Some (Instance [(''Accept'', ''text/csv'')]),
       body = None\<rparr> signed_in))
     = [(''/api/transactions'',
         \<lparr>req_method = None,
          headers = Some (Plain [''Authorization'' \<mapsto> Str ''Bearer T1'']),
          body = None\<rparr>)] \<and>
   fetched (snd (authFetch (example_platform Rejected) ''/api/transactions''
      \<lparr>req_method = None, headers = None, body = None\<rparr>
      (signed_in\<lparr>localStorage := [''accessToken'' \<mapsto> []]\<rparr>)))
     = [(''/api/transactions'',
         \<lparr>req_method = None,
          headers = Some (Plain [''Authorization'' \<mapsto> Str []]),
          body = None\<rparr>)] \<and>
   fetched (snd (authFetch (example_platform Rejected) ''/api/transactions''
      \<lparr>req_method = None,
       headers = Some (Plain [''authorization'' \<mapsto> Str ''Basic x'']),
       body = None\<rparr> signed_in))
     = [(''/api/transactions'',
         \<lparr>req_method = None,
          headers = Some (Plain [''authorization'' \<mapsto> Str ''Basic x'',
                                 ''Authorization'' \<mapsto> Str ''Bearer T1'']),
          body = None\<rparr>)] \<and>
   same_header_name ''authorization'' ''Authorization''"
  by (simp add: authFetch_fetched example_defs same_header_name_def lower_char_def)

text \<open>
  C6, amended. Every call of \<open>authFetch\<close> hands exactly one request to \<^verbatim>\<open>fetch\<close>, to the
  caller's url, with the caller's method and body and with a plain object of headers.
  Its \<^verbatim>\<open>Authorization\<close> property comes from storage alone, whatever the cells in memory
  hold and whatever the caller gave under that name: \<^verbatim>\<open>Bearer t\<close> when a non-empty access
  token \<open>t\<close> is stored, the empty string when none or an empty one is. When the caller
  gives the headers as a plain object, every property of it whose name is not a spelling
  of \<^verbatim>\<open>Authorization\<close> is in the request as the caller gave it; when the caller gives no
  headers, \<^verbatim>\<open>Authorization\<close> is the only one.
\<close>

theorem authFetch_request:
  "\<exists>init h.
     fetched (snd (authFetch P url options w)) = fetched w @ [(url, init)] \<and>
     fetched (snd (authFetch P url options (w\<lparr>token := v, user := u\<rparr>)))
       = fetched w @ [(url, init)] \<and>
     req_method init = req_method options \<and> body init = body options \<and>
     headers init = Some (Plain h) \<and>
     (\<forall>t. localStorage w ''accessToken'' = Some t \<and> t \<noteq> [] \<longrightarrow>
          h ''Authorization'' = Some (Str (''Bearer '' @ t))) \<and>
     (localStorage w ''accessToken'' = None \<or> localStorage w ''accessToken'' = Some [] \<longrightarrow>
          h ''Authorization'' = Some (Str [])) \<and>
     (\<forall>m k. headers options = Some (Plain m) \<and> \<not> same_header_name k ''Authorization'' \<longrightarrow>
          h k = m k) \<and>
     (\<forall>k. headers options = None \<and> k \<noteq> ''Authorization'' \<longrightarrow> h k = None)"
proof -
  have "\<not> same_header_name k ''Authorization'' \<Longrightarrow> k \<noteq> ''Authorization''" for k
    by (auto simp add: same_header_name_def)
  then show ?thesis
    by (auto simp add: authFetch_fetched auth_request_def bearer_def spread_def)
qed

theorem authFetch_request_witness:
  "localStorage (signed_in\<lparr>token := Str ''T0''\<rparr>) ''accessToken'' = Some ''T1'' \<and>
   \<not> same_header_name ''Accept'' ''Authorization'' \<and>
   (\<exists>init h.
      fetched (snd (authFetch (example_platform Rejected) ''/api/transactions''
        \<lparr>req_method = Some ''PUT'',
         headers = Some (Plain [''Authorization'' \<mapsto> Str ''Basic x'',
                                ''Accept'' \<mapsto> Str ''text/csv'']),
         body = Some ''b''\<rparr>
        (signed_in\<lparr>token := Str ''T0''\<rparr>)))
        = [(''/api/transactions'', init)] \<and>
      req_method init = Some ''PUT'' \<and> body init = Some ''b'' \<and>
      headers init = Some (Plain h) \<and>
      h ''Authorization'' = Some (Str ''Bearer T1'') \<and>
      h ''Accept'' = Some (Str ''text/csv'')) \<and>
   localStorage (initial Map.empty) ''accessToken'' = None \<and>
   (\<exists>init h.
      fetched (snd (authFetch (example_platform Rejected) ''/api/transactions''
        \<lparr>req_method = None, headers = None, body = None\<rparr> (initial Map.empty)))
        = [(''/api/transactions'', init)] \<and>
      headers init = Some (Plain h) \<and>
      h ''Authorization'' = Some (Str []) \<and> h ''Accept'' = None)"
proof -
  let ?o = "\<lparr>req_method = Some ''PUT'',
       headers = Some (Plain [''Authorization'' \<mapsto> Str ''Basic x'',
                              ''Accept'' \<mapsto> Str ''text/csv'']),
       body = Some ''b''\<rparr>"
  let ?w = "signed_in\<lparr>token := Str ''T0''\<rparr>"
  let ?n = "\<lparr>req_method = None, headers = None, body = None\<rparr>"
  have s: "localStorage ?w ''accessToken'' = Some ''T1''" and l: "fetched ?w = []"
    by (simp_all add: signed_in_def)
  have c: "\<not> same_header_name ''Accept'' ''Authorization''"
    by (simp add: same_header_name_def)
  have e: "localStorage (initial Map.empty) ''accessToken'' = None"
    and l': "fetched (initial Map.empty) = []"
    by (simp_all add: initial_def)
  from authFetch_request [of "example_platform Rejected" "''/api/transactions''" ?o ?w]
  obtain init h where
    f: "fetched (snd (authFetch (example_platform Rejected) ''/api/transactions'' ?o ?w))
          = fetched ?w @ [(''/api/transactions'', init)]"
    and m: "req_method init = req_method ?o" "body init = body ?o"
      "headers init = Some (Plain h)"
    and a: "\<forall>t. localStorage ?w ''accessToken'' = Some t \<and> t \<noteq> [] \<longrightarrow>
          h ''Authorization'' = Some (Str (''Bearer '' @ t))"
    and k: "\<forall>m k. headers ?o = Some (Plain m) \<and> \<not> same_header_name k ''Authorization'' \<longrightarrow>
          h k = m k"
    by blast
  from a s have "h ''Authorization'' = Some (Str ''Bearer T1'')" by simp
  moreover from k c have "h ''Accept'' = Some (Str ''text/csv'')" by simp
  ultimately have 1: "\<exists>init h.
      fetched (snd (authFetch (example_platform Rejected) ''/api/transactions'' ?o ?w))
        = [(''/api/transactions'', init)] \<and>
      req_method init = Some ''PUT'' \<and> body init = Some ''b'' \<and>
      headers init = Some (Plain h) \<and>
      h ''Authorization'' = Some (Str ''Bearer T1'') \<and>
      h ''Accept'' = Some (Str ''text/csv'')"
    using f m l by auto
  from authFetch_request
    [of "example_platform Rejected" "''/api/transactions''" ?n "initial Map.empty"]
  obtain init' h' where
    f': "fetched (snd (authFetch (example_platform Rejected) ''/api/transactions'' ?n
            (initial Map.empty)))
          = fetched (initial Map.empty) @ [(''/api/transactions'', init')]"
    and m': "headers init' = Some (Plain h')"
    and a': "localStorage (initial Map.empty) ''accessToken'' = None \<or>
          localStorage (initial Map.empty) ''accessToken'' = Some [] \<longrightarrow>
          h' ''Authorization'' = Some (Str [])"
    and k': "\<forall>k. headers ?n = None \<and> k \<noteq> ''Authorization'' \<longrightarrow> h' k = None"
    by blast
  from a' e have "h' ''Authorization'' = Some (Str [])" by simp
  moreover from k' have "h' ''Accept'' = None" by simp
  ultimately have 2: "\<exists>init h.
      fetched (snd (authFetch (example_platform Rejected) ''/api/transactions'' ?n
        (initial Map.empty)))
        = [(''/api/transactions'', init)] \<and>
      headers init = Some (Plain h) \<and>
      h ''Authorization'' = Some (Str []) \<and> h ''Accept'' = None"
    using f' m' l' by auto
  from s c e 1 2 show ?thesis by blast
qed

text \<open>
  C10. With no access token in storage, \<open>authFetch\<close> still hands the caller's request to
  \<^verbatim>\<open>fetch\<close>, and the request has an \<^verbatim>\<open>Authorization\<close> header, whose value is the empty
  string.
\<close>

theorem authFetch_without_token:
  assumes "localStorage w ''accessToken'' = None"
  shows "\<exists>init h.
     fetched (snd (authFetch P url options w)) = fetched w @ [(url, init)] \<and>
     headers init = Some (Plain h) \<and> h ''Authorization'' = Some (Str [])"
  using assms by (simp add: authFetch_fetched auth_request_def bearer_def)

theorem authFetch_without_token_witness:
  "localStorage (initial Map.empty) ''accessToken'' = None \<and>
   (\<exists>init h.
     fetched (snd (authFetch (example_platform Rejected) ''/api/transactions''
        \<lparr>req_method = None, headers = None, body = None\<rparr> (initial Map.empty)))
       = fetched (initial Map.empty) @ [(''/api/transactions'', init)] \<and>
     headers init = Some (Plain h) \<and> h ''Authorization'' = Some (Str []))"
  using authFetch_without_token
    [of "initial Map.empty" "example_platform Rejected" "''/api/transactions''"
        "\<lparr>req_method = None, headers = None, body = None\<rparr>"]
  by (simp add: initial_def)

subsection \<open>login and register\<close>

lemma login_eq:
  "login P email password w =
     (case answer P (login_request P email password) of
        Rejected \<Rightarrow> (Inr network_error, sent (login_request P email password) w)
      | Resolved resp \<Rightarrow>
          (case JSON_parse P (text_body resp) of
             None \<Rightarrow> (Inr network_error, sent (login_request P email password) w)
           | Some data \<Rightarrow>
               if data = Null \<or> data = Undefined then
                 (Inr network_error, sent (login_request P email password) w)
               else if ok resp then
                 written P data (sent (login_request P email password) w)
               else
                 (Inr (rejection P data ''Invalid email or password''),
                  sent (login_request P email password) w)))"
  by (simp add: login_def js_defs member_def answer_def login_request_def sent_def
      written_def writable_def session_items_def rejection_def
      split: fetch_result.splits option.splits)

lemma register_eq:
  "register P name email password w =
     (case answer P (register_request P name email password) of
        Rejected \<Rightarrow> (Inr network_error, sent (register_request P name email password) w)
      | Resolved resp \<Rightarrow>
          (case JSON_parse P (text_body resp) of
             None \<Rightarrow> (Inr network_error, sent (register_request P name email password) w)
           | Some data \<Rightarrow>
               if data = Null \<or> data = Undefined then
                 (Inr network_error, sent (register_request P name email password) w)
               else if ok resp then
                 written P data (sent (register_request P name email password) w)
               else
                 (Inr (rejection P data ''Registration failed''),
                  sent (register_request P name email password) w)))"
  by (simp add: register_def js_defs member_def answer_def register_request_def sent_def
      written_def writable_def session_items_def rejection_def
      split: fetch_result.splits option.splits)


lemma written_writable:
  assumes "writable P (localStorage w) (session_items P data)"
  shows "written P data w =
    (Inr \<lparr>success = True, error = Undefined\<rparr>,
     w\<lparr>localStorage := (localStorage w)
          (''accessToken'' \<mapsto> ToString P (field data ''access_token''),
           ''refreshToken'' \<mapsto> ToString P (field data ''refresh_token''),
           ''user'' \<mapsto> ToString P (JSON_stringify_js P (field data ''user''))),
       token := field data ''access_token'', user := field data ''user''\<rparr>)"
  using assms
  by (simp add: written_def writable_def session_items_def split: if_splits)



text \<open>
  C7, as the claim states it, fails for the refresh token: memory has a token cell and a
  user cell and no cell for the refresh token. Two logins whose responses differ in the
  refresh token alone succeed, store different refresh tokens, and leave the same
  memory.
\<close>

theorem login_memory_without_refresh_token:
  "fst (login (example_platform (Resolved \<lparr>status = 200, text_body = ''<session>''\<rparr>))
          ''a@b.com'' ''pw'' (initial Map.empty))
     = Inr \<lparr>success = True, error = Undefined\<rparr> \<and>
   fst (login (example_platform (Resolved \<lparr>status = 200, text_body = ''<session2>''\<rparr>))
          ''a@b.com'' ''pw'' (initial Map.empty))
     = Inr \<lparr>success = True, error = Undefined\<rparr> \<and>
   localStorage
     (snd (login (example_platform (Resolved \<lparr>status = 200, text_body = ''<session>''\<rparr>))
          ''a@b.com'' ''pw'' (initial Map.empty))) ''refreshToken'' = Some ''R1'' \<and>
   localStorage
     (snd (login (example_platform (Resolved \<lparr>status = 200, text_body = ''<session2>''\<rparr>))
          ''a@b.com'' ''pw'' (initial Map.empty))) ''refreshToken'' = Some ''R2'' \<and>
   token
     (snd (login (example_platform (Resolved \<lparr>status = 200, text_body = ''<session>''\<rparr>))
          ''a@b.com'' ''pw'' (initial Map.empty))) =
   token
     (snd (login (example_platform (Resolved \<lparr>status = 200, text_body = ''<session2>''\<rparr>))
          ''a@b.com'' ''pw'' (initial Map.empty))) \<and>
   user
     (snd (login (example_platform (Resolved \<lparr>status = 200, text_body = ''<session>''\<rparr>))
          ''a@b.com'' ''pw'' (initial Map.empty))) =
   user
     (snd (login (example_platform (Resolved \<lparr>status = 200, text_body = ''<session2>''\<rparr>))
          ''a@b.com'' ''pw'' (initial Map.empty))) \<and>
   isLoading
     (snd (login (example_platform (Resolved \<lparr>status = 200, text_body = ''<session>''\<rparr>))
          ''a@b.com'' ''pw'' (initial Map.empty))) =
   isLoading
     (snd (login (example_platform (Resolved \<lparr>status = 200, text_body = ''<session2>''\<rparr>))
          ''a@b.com'' ''pw'' (initial Map.empty)))"
  by (simp add: login_eq written_def writable_def session_items_def example_defs)

text \<open>
  C7, amended. When the server answers \<open>login\<close> (or \<open>register\<close>) with an ok response whose
  body has the strings \<open>a\<close> and \<open>r\<close> as \<^verbatim>\<open>access_token\<close> and \<^verbatim>\<open>refresh_token\<close> and a
  \<^verbatim>\<open>user\<close> \<open>u\<close>, and the storage takes the three writes, the operation returns success;
  storage is the old storage with \<open>a\<close>, \<open>r\<close> and the serialised \<open>u\<close> under the three keys;
  in memory the token cell is \<open>a\<close> and the user cell is \<open>u\<close>. The refresh token is in
  storage only.
\<close>

theorem login_register_success:
  assumes "JSON_parse P (text_body resp) = Some data" and "ok resp"
    and "field data ''access_token'' = Str a"
    and "field data ''refresh_token'' = Str r"
    and "field data ''user'' = u" and "u \<noteq> Undefined"
    and "writable P (localStorage w)
           [(''accessToken'', a), (''refreshToken'', r), (''user'', JSON_stringify P u)]"
  shows
    "(answer P (login_request P email password) = Resolved resp \<longrightarrow>
        login P email password w =
          (Inr \<lparr>success = True, error = Undefined\<rparr>,
           (sent (login_request P email password) w)
             \<lparr>localStorage := (localStorage w)
                (''accessToken'' \<mapsto> a, ''refreshToken'' \<mapsto> r,
                 ''user'' \<mapsto> JSON_stringify P u),
              token := Str a, user := u\<rparr>)) \<and>
     (answer P (register_request P name email password) = Resolved resp \<longrightarrow>
        register P name email password w =
          (Inr \<lparr>success = True, error = Undefined\<rparr>,
           (sent (register_request P name email password) w)
             \<lparr>localStorage := (localStorage w)
                (''accessToken'' \<mapsto> a, ''refreshToken'' \<mapsto> r,
                 ''user'' \<mapsto> JSON_stringify P u),
              token := Str a, user := u\<rparr>))"
proof -
  from assms have i: "session_items P data =
      [(''accessToken'', a), (''refreshToken'', r), (''user'', JSON_stringify P u)]"
    by (simp add: session_items_def JSON_stringify_js_def)
  with assms(7) have "writable P (localStorage (sent q w)) (session_items P data)" for q
    by (simp add: sent_def)
  from written_writable [OF this] assms field_Str_present [OF assms(3)]
  show ?thesis
    by (simp add: login_eq register_eq JSON_stringify_js_def sent_def)
qed

theorem login_register_success_witness:
  "JSON_parse (example_platform (Resolved \<lparr>status = 200, text_body = ''<session>''\<rparr>))
     (text_body \<lparr>status = 200, text_body = ''<session>''\<rparr>)
     = Some (Obj [(''access_token'', Str ''T1''), (''refresh_token'', Str ''R1''),
                  (''user'', example_user)]) \<and>
   ok \<lparr>status = 200, text_body = ''<session>''\<rparr> \<and>
   example_user \<noteq> Undefined \<and>
   writable (example_platform (Resolved \<lparr>status = 200, text_body = ''<session>''\<rparr>))
     (localStorage (initial Map.empty))
     [(''accessToken'', ''T1''), (''refreshToken'', ''R1''), (''user'', ''<user>'')] \<and>
   fst (login (example_platform (Resolved \<lparr>status = 200, text_body = ''<session>''\<rparr>))
          ''a@b.com'' ''pw'' (initial Map.empty))
     = Inr \<lparr>success = True, error = Undefined\<rparr> \<and>
   localStorage
     (snd (login (example_platform (Resolved \<lparr>status = 200, text_body = ''<session>''\<rparr>))
          ''a@b.com'' ''pw'' (initial Map.empty)))
     = [''accessToken'' \<mapsto> ''T1'', ''refreshToken'' \<mapsto> ''R1'', ''user'' \<mapsto> ''<user>''] \<and>
   token
     (snd (login (example_platform (Resolved \<lparr>status = 200, text_body = ''<session>''\<rparr>))
          ''a@b.com'' ''pw'' (initial Map.empty))) = Str ''T1'' \<and>
   user
     (snd (login (example_platform (Resolved \<lparr>status = 200, text_body = ''<session>''\<rparr>))
          ''a@b.com'' ''pw'' (initial Map.empty))) = example_user \<and>
   user
     (snd (register (example_platform (Resolved \<lparr>status = 200, text_body = ''<session>''\<rparr>))
          ''A'' ''a@b.com'' ''pw'' (initial Map.empty))) = example_user"
  using login_register_success
    [of "example_platform (Resolved \<lparr>status = 200, text_body = ''<session>''\<rparr>)"
        "\<lparr>status = 200, text_body = ''<session>''\<rparr>"
        "Obj [(''access_token'', Str ''T1''), (''refresh_token'', Str ''R1''),
              (''user'', example_user)]"
        "''T1''" "''R1''" example_user "initial Map.empty" "''a@b.com''" "''pw''" "''A''"]
  by (simp add: example_defs writable_def)




subsection \<open>Initialisation\<close>

lemma init_eq:
  "init_effect P w =
     (Inr (),
      case (localStorage w ''accessToken'', localStorage w ''user'') of
        (Some t, Some u) \<Rightarrow>
          if t \<noteq> [] \<and> u \<noteq> [] then
            (case JSON_parse P u of
               None \<Rightarrow> w\<lparr>localStorage := (localStorage w)(''user'' := None),
                          token := Str t, isLoading := False\<rparr>
             | Some v \<Rightarrow> w\<lparr>user := v, token := Str t, isLoading := False\<rparr>)
          else w\<lparr>isLoading := False\<rparr>
      | _ \<Rightarrow> w\<lparr>isLoading := False\<rparr>)"
  by (simp add: init_effect_def js_defs split: option.splits)

text \<open>
  C9, as the claim states it, fails for the last part: with a corrupted user record and
  no access token in storage, the effect does not parse the record, and the record is
  still in storage afterwards.
\<close>

theorem init_keeps_corrupted_user_without_token:
  "JSON_parse (example_platform Rejected) ''not json'' = None \<and>
   fst (init_effect (example_platform Rejected) (initial [''user'' \<mapsto> ''not json'']))
     = Inr () \<and>
   localStorage
     (snd (init_effect (example_platform Rejected) (initial [''user'' \<mapsto> ''not json''])))
     ''user'' = Some ''not json''"
  by (simp add: init_eq example_defs)

text \<open>
  C9, amended. With a user record in storage that does not parse, the effect ends
  without an exception, the loading flag is cleared and the user cell is \<^verbatim>\<open>null\<close>. When a
  non-empty access token is stored beside a non-empty record, the token cell is that
  token and the record is removed from storage. When no access token, or an empty one,
  is stored, or the record is the empty string, the token cell is \<^verbatim>\<open>null\<close> and storage
  is left as it was, the record included.
\<close>

theorem init_corrupted_user:
  assumes "st ''user'' = Some u" and "JSON_parse P u = None"
  shows "fst (init_effect P (initial st)) = Inr () \<and>
    isLoading (snd (init_effect P (initial st))) = False \<and>
    user (snd (init_effect P (initial st))) = Null \<and>
    (\<forall>t. st ''accessToken'' = Some t \<and> t \<noteq> [] \<and> u \<noteq> [] \<longrightarrow>
       token (snd (init_effect P (initial st))) = Str t \<and>
       localStorage (snd (init_effect P (initial st))) = st(''user'' := None)) \<and>
    (st ''accessToken'' = None \<or> st ''accessToken'' = Some [] \<or> u = [] \<longrightarrow>
       token (snd (init_effect P (initial st))) = Null \<and>
       localStorage (snd (init_effect P (initial st))) = st)"
  using assms by (auto simp add: init_eq initial_def split: option.splits)

theorem init_corrupted_user_witness:
  "[''accessToken'' \<mapsto> ''T1'', ''user'' \<mapsto> ''not json''] ''user'' = Some ''not json'' \<and>
   JSON_parse (example_platform Rejected) ''not json'' = None \<and>
   isLoading (snd (init_effect (example_platform Rejected)
      (initial [''accessToken'' \<mapsto> ''T1'', ''user'' \<mapsto> ''not json'']))) = False \<and>
   user (snd (init_effect (example_platform Rejected)
      (initial [''accessToken'' \<mapsto> ''T1'', ''user'' \<mapsto> ''not json'']))) = Null \<and>
   token (snd (init_effect (example_platform Rejected)
      (initial [''accessToken'' \<mapsto> ''T1'', ''user'' \<mapsto> ''not json'']))) = Str ''T1'' \<and>
   localStorage (snd (init_effect (example_platform Rejected)
      (initial [''accessToken'' \<mapsto> ''T1'', ''user'' \<mapsto> ''not json''])))
     = [''accessToken'' \<mapsto> ''T1''] \<and>
   token (snd (init_effect (example_platform Rejected)
      (initial [''user'' \<mapsto> ''not json'']))) = Null \<and>
   localStorage (snd (init_effect (example_platform Rejected)
      (initial [''user'' \<mapsto> ''not json''])))
     = [''user'' \<mapsto> ''not json'']"
  using
    init_corrupted_user
      [of "[''accessToken'' \<mapsto> ''T1'', ''user'' \<mapsto> ''not json'']" "''not json''"
          "example_platform Rejected"]
    init_corrupted_user
      [of "[''user'' \<mapsto> ''not json'']" "''not json''" "example_platform Rejected"]
  by (simp add: example_defs fun_upd_twist)

subsection \<open>Token and user together\<close>
















end
